theory Spec2Isabelle
  imports Complex_Main "HOL-Library.AList" "HOL-Library.Multiset"
begin

section \<open>Data model\<close>

text \<open>
  The program is a single TypeScript module (\<^verbatim>\<open>src/index.tsx\<close>). Its service
  functions and the two budget computations are embedded below.

  Conventions of the embedding:
  \<^item> a JavaScript \<^verbatim>\<open>number\<close> is a \<^typ>\<open>real\<close>: arithmetic is exact and the rounding of
    IEEE doubles is not modelled. Where the code can produce a value that is no finite
    number (the time of an unparseable date, a quotient by zero, a sum with a value that
    is no number) the type is \<^typ>\<open>real option\<close> and that value is \<open>None\<close>;
  \<^item> identifiers and colours are ASCII and are \<^typ>\<open>string\<close>s; the Arabic display
    names are lists of UTF-16 code units, as a JavaScript string holds them;
  \<^item> an object used as a dictionary is an association list in insertion order, with
    distinct keys; \<^verbatim>\<open>acc[k] = v\<close> is \<^const>\<open>AList.update\<close> (in place for an existing
    key, appended for a new one) and \<^verbatim>\<open>delete acc[k]\<close> is \<^const>\<open>AList.delete\<close>.
    A read \<^verbatim>\<open>acc[k]\<close> of a key that the object does not own finds what the object
    inherits: for the objects keyed by category id, which can be any string, see
    \<open>inheritedProperty\<close> below. The month labels and the catalog's category names
    name no inherited property, so for the objects keyed by them the read is
    \<^const>\<open>map_of\<close>.
  The body of \<^verbatim>\<open>getDashboardStats\<close> is split into one definition for each of the
  statistics it returns; the \<^verbatim>\<open>budgetStatus\<close> and \<^verbatim>\<open>budgetAlerts\<close> computations of
  the dashboard page and the state update of \<^verbatim>\<open>setBudget\<close> are functions of what they
  read.
\<close>

type_synonym ustring = "nat list"

datatype TransactionType = INCOME | EXPENSE

record Category =
  id :: string
  name :: ustring
  color :: string

record Transaction =
  id :: string
  type :: TransactionType
  categoryId :: string
  amount :: real
  date :: string
  description :: string
  tags :: "string list option"

text \<open>
  The object literals the functions build, one record each. The month rows carry the
  Arabic field names for income and expense, transliterated here as \<open>dakhl\<close> and
  \<open>masruf\<close>; their \<^verbatim>\<open>name\<close> is the month label, of the type \<open>'l\<close> of labels (see
  the runtime below).
\<close>

record Totals =
  income :: real
  expense :: real
  balance :: real

record GroupedEntry =
  total :: real
  color :: string
  count :: nat

record CategorySlice =
  name :: ustring
  "value" :: real
  color :: string

record 'l MonthRow =
  name :: 'l
  dakhl :: real
  masruf :: real

record DashboardStats =
  totalTransactions :: nat
  largestSpendingCategory :: ustring
  highestIncome :: real
  monthlySavingsPercentage :: "real option"

record BudgetStatus =
  categoryId :: string
  categoryName :: ustring
  budgetAmount :: real
  spentAmount :: "real option"
  percentage :: "real option"
  remaining :: "real option"
  color :: string

subsection \<open>The JavaScript runtime\<close>

text \<open>
  The functions read the clock and use \<^verbatim>\<open>Date\<close> and \<^verbatim>\<open>Intl\<close>, which belong to the
  JavaScript engine, not to the program. What they return is a parameter of the model:
  \<^item> \<open>nowMonth\<close>, \<open>nowFullYear\<close>: \<^verbatim>\<open>new Date().getMonth()\<close> and
    \<^verbatim>\<open>new Date().getFullYear()\<close>, the ambient clock in local time;
  \<^item> \<open>getMonth d\<close>, \<open>getFullYear d\<close>: \<^verbatim>\<open>new Date(d).getMonth()\<close> and
    \<^verbatim>\<open>new Date(d).getFullYear()\<close> in local time, \<open>None\<close> for the \<^verbatim>\<open>NaN\<close> of an
    invalid date;
  \<^item> \<open>toLocaleString d\<close>: the label
    \<^verbatim>\<open>new Date(d).toLocaleString('ar-EG', {month: 'short', year: 'numeric', numberingSystem: 'latn'})\<close>;
  \<^item> \<open>getTime l\<close>: \<^verbatim>\<open>new Date(l).getTime()\<close> for a label \<open>l\<close>, \<open>None\<close> for \<^verbatim>\<open>NaN\<close>.
  The type \<open>'l\<close> of labels is left open: every statement below holds whatever the
  label strings are.
\<close>

record 'l Runtime =
  nowMonth :: nat
  nowFullYear :: int
  getMonth :: "string \<Rightarrow> nat option"
  getFullYear :: "string \<Rightarrow> int option"
  toLocaleString :: "string \<Rightarrow> 'l"
  getTime :: "'l \<Rightarrow> real option"

text \<open>
  \<^verbatim>\<open>Array.prototype.sort\<close> with a comparator. The sort is stable, and a comparator
  result of \<^verbatim>\<open>NaN\<close> counts as \<open>+0\<close>. It is modelled by a stable insertion sort: \<open>x\<close>
  goes before \<open>y\<close> unless the comparator is positive on \<open>(x, y)\<close>. (For a comparator
  that is no consistent ordering the standard leaves the resulting order to the engine.)
\<close>

definition sortCompare :: "real option \<Rightarrow> real" where
  "sortCompare v = (case v of None \<Rightarrow> 0 | Some x \<Rightarrow> x)"

fun sortInsert :: "('a \<Rightarrow> 'a \<Rightarrow> real option) \<Rightarrow> 'a \<Rightarrow> 'a list \<Rightarrow> 'a list" where
  "sortInsert cmp x [] = [x]"
| "sortInsert cmp x (y # ys) =
     (if sortCompare (cmp x y) \<le> 0 then x # y # ys else y # sortInsert cmp x ys)"

definition jsSort :: "('a \<Rightarrow> 'a \<Rightarrow> real option) \<Rightarrow> 'a list \<Rightarrow> 'a list" where
  "jsSort cmp xs = foldr (sortInsert cmp) xs []"

text \<open>
  Arithmetic on values either of which may be no finite number. A quotient by zero is
  infinite or \<^verbatim>\<open>NaN\<close>; \<^verbatim>\<open>+\<close> with a function, an object or a string on the left
  builds a string, which is no number either.
\<close>

definition jsMinus :: "real option \<Rightarrow> real option \<Rightarrow> real option" where
  "jsMinus a b = (case (a, b) of (Some x, Some y) \<Rightarrow> Some (x - y) | _ \<Rightarrow> None)"

definition jsPlus :: "real option \<Rightarrow> real option \<Rightarrow> real option" where
  "jsPlus a b = (case (a, b) of (Some x, Some y) \<Rightarrow> Some (x + y) | _ \<Rightarrow> None)"

definition jsTimes :: "real option \<Rightarrow> real option \<Rightarrow> real option" where
  "jsTimes a b = (case (a, b) of (Some x, Some y) \<Rightarrow> Some (x * y) | _ \<Rightarrow> None)"

definition jsDivide :: "real option \<Rightarrow> real option \<Rightarrow> real option" where
  "jsDivide a b =
     (case (a, b) of (Some x, Some y) \<Rightarrow> if y = 0 then None else Some (x / y) | _ \<Rightarrow> None)"

text \<open>
  The properties that every object inherits from \<^verbatim>\<open>Object.prototype\<close>. On an object
  that began as \<^verbatim>\<open>{}\<close>, the read \<^verbatim>\<open>acc[k]\<close> of such a key that the object does not own
  gives the inherited function (for \<^verbatim>\<open>__proto__\<close>, the prototype object): a value that is
  truthy and no number. \<open>propertyOr0\<close> is the expression \<^verbatim>\<open>acc[k] || 0\<close>: the own value
  of the key (a number, or a value that is no number), else the inherited value, else 0.
  An assignment \<^verbatim>\<open>acc[k] = v\<close> stores an own property, except for the key
  \<^verbatim>\<open>__proto__\<close>, where it reaches the inherited setter, which ignores a value that is
  no object.
\<close>

definition inheritedProperty :: "string \<Rightarrow> bool" where
  "inheritedProperty k \<longleftrightarrow>
     k \<in> set [''constructor'', ''__defineGetter__'', ''__defineSetter__'', ''hasOwnProperty'',
              ''__lookupGetter__'', ''__lookupSetter__'', ''isPrototypeOf'',
              ''propertyIsEnumerable'', ''toString'', ''valueOf'', ''__proto__'',
              ''toLocaleString'']"

definition propertyOr0 :: "(string \<times> real option) list \<Rightarrow> string \<Rightarrow> real option" where
  "propertyOr0 acc k =
     (case map_of acc k of
        Some v \<Rightarrow> v
      | None \<Rightarrow> if inheritedProperty k then None else Some 0)"

definition assignProperty ::
  "string \<Rightarrow> real option \<Rightarrow> (string \<times> real option) list \<Rightarrow> (string \<times> real option) list" where
  "assignProperty k v acc = (if k = ''__proto__'' then acc else AList.update k v acc)"

text \<open>
  The order in which \<^verbatim>\<open>Object.keys\<close> and \<^verbatim>\<open>Object.entries\<close> list the keys of an
  object: the keys that are array indices (canonical decimal strings below \<open>2^32 - 1\<close>)
  first, in ascending numeric order, then the other keys in insertion order. The keys of
  the month and category-name objects contain letters, so for them this is the insertion
  order; the objects keyed by category id go through \<open>objectEntries\<close>.
\<close>

definition decimalValue :: "string \<Rightarrow> int" where
  "decimalValue s = foldl (\<lambda>n c. 10 * n + (of_char c - 48)) 0 s"

definition arrayIndex :: "string \<Rightarrow> int option" where
  "arrayIndex s =
     (case s of
        [] \<Rightarrow> None
      | c # cs \<Rightarrow>
          if list_all (\<lambda>d. d \<in> set ''0123456789'') s \<and> (if c = CHR ''0'' then cs = [] else True)
             \<and> decimalValue s < 4294967295
          then Some (decimalValue s) else None)"

definition objectEntries :: "(string \<times> 'v) list \<Rightarrow> (string \<times> 'v) list" where
  "objectEntries ps =
     sort_key (\<lambda>p. case arrayIndex (fst p) of None \<Rightarrow> 0 | Some n \<Rightarrow> n)
       (filter (\<lambda>p. arrayIndex (fst p) \<noteq> None) ps)
     @ filter (\<lambda>p. arrayIndex (fst p) = None) ps"

subsection \<open>The category catalog\<close>

definition CATEGORIES_INCOME :: "Category list" where
  "CATEGORIES_INCOME =
    [\<lparr>Category.id = ''salary'', name = [1585, 1575, 1578, 1576], color = ''#22c55e''\<rparr>,
     \<lparr>Category.id = ''freelance'', name = [1593, 1605, 1604, 32, 1581, 1585], color = ''#4ade80''\<rparr>,
     \<lparr>Category.id = ''investment'', name = [1575, 1587, 1578, 1579, 1605, 1575, 1585],
      color = ''#86efac''\<rparr>,
     \<lparr>Category.id = ''other_income'', name = [1583, 1582, 1604, 32, 1570, 1582, 1585],
      color = ''#bbf7d0''\<rparr>]"

definition CATEGORIES_EXPENSE :: "Category list" where
  "CATEGORIES_EXPENSE =
    [\<lparr>Category.id = ''food'', name = [1591, 1593, 1575, 1605], color = ''#ef4444''\<rparr>,
     \<lparr>Category.id = ''housing'', name = [1587, 1603, 1606], color = ''#f87171''\<rparr>,
     \<lparr>Category.id = ''transport'', name = [1605, 1608, 1575, 1589, 1604, 1575, 1578],
      color = ''#f97316''\<rparr>,
     \<lparr>Category.id = ''entertainment'', name = [1578, 1585, 1601, 1610, 1607], color = ''#facc15''\<rparr>,
     \<lparr>Category.id = ''health'', name = [1589, 1581, 1577], color = ''#3b82f6''\<rparr>,
     \<lparr>Category.id = ''shopping'', name = [1578, 1587, 1608, 1602], color = ''#a855f7''\<rparr>,
     \<lparr>Category.id = ''education'', name = [1578, 1593, 1604, 1610, 1605], color = ''#8b5cf6''\<rparr>,
     \<lparr>Category.id = ''bills'', name = [1601, 1608, 1575, 1578, 1610, 1585], color = ''#6366f1''\<rparr>,
     \<lparr>Category.id = ''debts'', name = [1583, 1610, 1608, 1606], color = ''#ec4899''\<rparr>,
     \<lparr>Category.id = ''investment_expense'',
      name = [1575, 1587, 1578, 1579, 1605, 1575, 1585, 1575, 1578], color = ''#14b8a6''\<rparr>,
     \<lparr>Category.id = ''leisure'',
      name = [1605, 1589, 1575, 1585, 1610, 1601, 32, 1578, 1585, 1601, 1610, 1607, 1610, 1577],
      color = ''#d97706''\<rparr>,
     \<lparr>Category.id = ''other_expense'',
      name = [1605, 1589, 1575, 1585, 1610, 1601, 32, 1571, 1582, 1585, 1609],
      color = ''#6b7280''\<rparr>]"

text \<open>
  \<^verbatim>\<open>getCategoryById\<close>: \<^verbatim>\<open>[...INCOME, ...EXPENSE].find(cat => cat.id === id)\<close>; the
  \<^verbatim>\<open>undefined\<close> of an unknown id is \<open>None\<close>.
\<close>

definition getCategoryById :: "string \<Rightarrow> Category option" where
  "getCategoryById i = find (\<lambda>cat. Category.id cat = i) (CATEGORIES_INCOME @ CATEGORIES_EXPENSE)"

section \<open>Services\<close>

text \<open>
  The reducer of \<^verbatim>\<open>calculateTotals\<close>: one branch adds to \<^verbatim>\<open>income\<close>, the other to
  \<^verbatim>\<open>expense\<close>, and every step recomputes \<^verbatim>\<open>balance\<close>.
\<close>

definition totalsStep :: "Totals \<Rightarrow> Transaction \<Rightarrow> Totals" where
  "totalsStep acc transaction =
     (let acc1 = (if type transaction = INCOME
                  then acc\<lparr>income := income acc + amount transaction\<rparr>
                  else acc\<lparr>expense := expense acc + amount transaction\<rparr>)
      in acc1\<lparr>balance := income acc1 - expense acc1\<rparr>)"

definition calculateTotals :: "Transaction list \<Rightarrow> Totals" where
  "calculateTotals transactions =
     foldl totalsStep \<lparr>income = 0, expense = 0, balance = 0\<rparr> transactions"

text \<open>
  The reducer of \<^verbatim>\<open>groupExpensesByCategory\<close>. A transaction whose category is not
  found leaves the accumulator as it is. Otherwise the entry under the category's name
  is created when absent (a new key goes to the end) and its total and count grow.
\<close>

definition groupStep ::
  "(ustring \<times> GroupedEntry) list \<Rightarrow> Transaction \<Rightarrow> (ustring \<times> GroupedEntry) list" where
  "groupStep acc tx =
     (case getCategoryById (Transaction.categoryId tx) of
        None \<Rightarrow> acc
      | Some category \<Rightarrow>
          (let e = (case map_of acc (Category.name category) of
                      None \<Rightarrow> \<lparr>total = 0, color = Category.color category, count = 0\<rparr>
                    | Some e0 \<Rightarrow> e0)
           in AList.update (Category.name category)
                (e\<lparr>total := total e + amount tx, count := count e + 1\<rparr>) acc))"

definition groupExpensesByCategory :: "Transaction list \<Rightarrow> CategorySlice list" where
  "groupExpensesByCategory transactions =
     (let expenses = filter (\<lambda>t. type t = EXPENSE) transactions;
          grouped = foldl groupStep [] expenses
      in map (\<lambda>(n, data).
               \<lparr>CategorySlice.name = n, value = total data,
                color = GroupedEntry.color data\<rparr>) grouped)"

text \<open>
  The reducer of \<^verbatim>\<open>groupTransactionsByMonth\<close>: the key is the label of the
  transaction's date, and the row under it adds the amount to its income or its expense.
  The rows are then sorted with the comparator
  \<^verbatim>\<open>new Date(b.name).getTime() - new Date(a.name).getTime()\<close>.
\<close>

definition monthStep ::
  "'l Runtime \<Rightarrow> ('l \<times> 'l MonthRow) list \<Rightarrow> Transaction \<Rightarrow> ('l \<times> 'l MonthRow) list" where
  "monthStep rt acc t =
     (let month = toLocaleString rt (date t);
          row = (case map_of acc month of
                   None \<Rightarrow> \<lparr>MonthRow.name = month, dakhl = 0, masruf = 0\<rparr>
                 | Some r \<Rightarrow> r)
      in AList.update month
           (if type t = INCOME then row\<lparr>dakhl := dakhl row + amount t\<rparr>
            else row\<lparr>masruf := masruf row + amount t\<rparr>) acc)"

definition monthCompare :: "'l Runtime \<Rightarrow> 'l MonthRow \<Rightarrow> 'l MonthRow \<Rightarrow> real option" where
  "monthCompare rt a b = jsMinus (getTime rt (MonthRow.name b)) (getTime rt (MonthRow.name a))"

definition groupTransactionsByMonth :: "'l Runtime \<Rightarrow> Transaction list \<Rightarrow> 'l MonthRow list" where
  "groupTransactionsByMonth rt transactions =
     (let data = foldl (monthStep rt) [] transactions
      in jsSort (monthCompare rt) (map snd data))"

text \<open>
  The reducer that \<^verbatim>\<open>getDashboardStats\<close> and the budget computation both use:
  \<^verbatim>\<open>acc[tx.categoryId] = (acc[tx.categoryId] || 0) + tx.amount\<close>.
\<close>

definition spendingStep ::
  "(string \<times> real option) list \<Rightarrow> Transaction \<Rightarrow> (string \<times> real option) list" where
  "spendingStep acc tx =
     assignProperty (Transaction.categoryId tx)
       (jsPlus (propertyOr0 acc (Transaction.categoryId tx)) (Some (amount tx))) acc"

text \<open>The two sentinel names: "none" and "unknown".\<close>

definition noneName :: ustring where
  "noneName = [1604, 1575, 32, 1610, 1608, 1580, 1583]"

definition unknownName :: ustring where
  "unknownName = [1594, 1610, 1585, 32, 1605, 1593, 1585, 1608, 1601]"

text \<open>
  The month filter of \<^verbatim>\<open>getDashboardStats\<close> and of the budget computation:
  \<^verbatim>\<open>txDate.getMonth() === currentMonth && txDate.getFullYear() === currentYear\<close>,
  with the current month and year read from the clock.
\<close>

definition inCurrentMonth :: "'l Runtime \<Rightarrow> Transaction \<Rightarrow> bool" where
  "inCurrentMonth rt tx \<longleftrightarrow>
     getMonth rt (date tx) = Some (nowMonth rt) \<and> getFullYear rt (date tx) = Some (nowFullYear rt)"

definition largestSpendingCategoryOf :: "Transaction list \<Rightarrow> ustring" where
  "largestSpendingCategoryOf transactions =
     (let expenseTransactions = filter (\<lambda>tx. type tx = EXPENSE) transactions
      in if length expenseTransactions > 0
         then (let spendingByCategory = foldl spendingStep [] expenseTransactions
               in case jsSort (\<lambda>(_, a) (_, b). jsMinus b a) (objectEntries spendingByCategory) of
                    [] \<Rightarrow> noneName
                  | largestCategoryEntry # _ \<Rightarrow>
                      (case getCategoryById (fst largestCategoryEntry) of
                         Some category \<Rightarrow> Category.name category
                       | None \<Rightarrow> unknownName))
         else noneName)"

definition highestIncomeOf :: "Transaction list \<Rightarrow> real" where
  "highestIncomeOf transactions =
     (case map amount (filter (\<lambda>tx. type tx = INCOME) transactions) of
        [] \<Rightarrow> 0
      | a # as \<Rightarrow> foldl max a as)"

definition monthlySavingsPercentageOf :: "'l Runtime \<Rightarrow> Transaction list \<Rightarrow> real option" where
  "monthlySavingsPercentageOf rt transactions =
     (let currentMonthTransactions = filter (inCurrentMonth rt) transactions;
          monthlyTotals = calculateTotals currentMonthTransactions;
          monthlySavings = income monthlyTotals - expense monthlyTotals
      in if income monthlyTotals > 0
         then jsTimes (jsDivide (Some monthlySavings) (Some (income monthlyTotals))) (Some 100)
         else Some 0)"

definition getDashboardStats :: "'l Runtime \<Rightarrow> Transaction list \<Rightarrow> DashboardStats" where
  "getDashboardStats rt transactions =
     \<lparr>totalTransactions = length transactions,
      largestSpendingCategory = largestSpendingCategoryOf transactions,
      highestIncome = highestIncomeOf transactions,
      monthlySavingsPercentage = monthlySavingsPercentageOf rt transactions\<rparr>"

text \<open>
  The \<^verbatim>\<open>budgetStatus\<close> computation of the dashboard page. \<^verbatim>\<open>budgets\<close> is the
  object from category id to limit; its keys are listed by \<^verbatim>\<open>Object.keys\<close>, so each is
  an own key. The row of a key is \<^verbatim>\<open>null\<close> (here \<open>None\<close>) when the limit is falsy or
  not positive; the rows that remain are sorted by \<^verbatim>\<open>b.percentage - a.percentage\<close>. The
  alerts keep the rows with \<^verbatim>\<open>percentage >= 80\<close>, which is false of \<^verbatim>\<open>NaN\<close>.
\<close>

definition budgetRow ::
  "(string \<times> real option) list \<Rightarrow> (string \<times> real) list \<Rightarrow> string \<Rightarrow> BudgetStatus option" where
  "budgetRow expensesByCategory budgets cid =
     (case map_of budgets cid of
        None \<Rightarrow> None
      | Some limit \<Rightarrow>
          if limit = 0 \<or> limit \<le> 0 then None
          else
            (let category = getCategoryById cid;
                 spent = propertyOr0 expensesByCategory cid;
                 pct = jsTimes (jsDivide spent (Some limit)) (Some 100);
                 rem = jsMinus (Some limit) spent
             in Some \<lparr>categoryId = cid,
                      categoryName = (case category of
                                        None \<Rightarrow> unknownName
                                      | Some c \<Rightarrow> if Category.name c = [] then unknownName
                                                  else Category.name c),
                      budgetAmount = limit, spentAmount = spent,
                      percentage = pct, remaining = rem,
                      color = (case category of
                                 None \<Rightarrow> ''#ccc''
                               | Some c \<Rightarrow> if Category.color c = [] then ''#ccc''
                                           else Category.color c)\<rparr>))"

definition percentageCompare :: "BudgetStatus \<Rightarrow> BudgetStatus \<Rightarrow> real option" where
  "percentageCompare a b = jsMinus (percentage b) (percentage a)"

definition budgetStatus ::
  "'l Runtime \<Rightarrow> Transaction list \<Rightarrow> (string \<times> real) list \<Rightarrow> BudgetStatus list" where
  "budgetStatus rt transactions budgets =
     (let currentMonthExpenses =
            filter (\<lambda>tx. type tx = EXPENSE \<and> inCurrentMonth rt tx) transactions;
          expensesByCategory = foldl spendingStep [] currentMonthExpenses
      in jsSort percentageCompare
           (List.map_filter (budgetRow expensesByCategory budgets)
              (map fst (objectEntries budgets))))"

definition budgetAlerts :: "BudgetStatus list \<Rightarrow> BudgetStatus list" where
  "budgetAlerts statuses =
     jsSort percentageCompare
       (filter (\<lambda>s. case percentage s of None \<Rightarrow> False | Some p \<Rightarrow> p \<ge> 80) statuses)"

text \<open>
  \<^verbatim>\<open>setBudget\<close>, as a function on the budgets object: a negative amount returns before
  the state is touched, the amount 0 deletes the key, any other amount is stored.
\<close>

definition setBudget :: "string \<Rightarrow> real \<Rightarrow> (string \<times> real) list \<Rightarrow> (string \<times> real) list" where
  "setBudget cid amt budgets =
     (if amt < 0 then budgets
      else if amt = 0 then AList.delete cid budgets
      else AList.update cid amt budgets)"

subsection \<open>A concrete runtime\<close>

text \<open>
  For the examples, a runtime that reads date-only strings \<^verbatim>\<open>YYYY-MM-DD\<close>, the form the
  add-transaction page stores. \<^verbatim>\<open>new Date\<close> takes such a string as midnight UTC, and the
  getters and the formatter then read the local calendar: with a zone offset \<open>tz\<close> (in
  minutes, between \<open>-1440\<close> and \<open>1440\<close>) at or east of UTC that is the same day, west of
  UTC the day before. Any other string is an invalid date here, and so is a date-only
  string with a day that its month does not have (on which engines differ). A label is
  the pair of the month index and the year that the label string spells; \<open>None\<close> is the
  label of an invalid date.
\<close>

definition twoDigits :: "string \<Rightarrow> nat option" where
  "twoDigits s =
     (if length s = 2 \<and> list_all (\<lambda>d. d \<in> set ''0123456789'') s
      then Some (nat (decimalValue s)) else None)"

definition daysInMonth :: "int \<Rightarrow> nat \<Rightarrow> nat" where
  "daysInMonth y m =
     (if m = 2 then (if y mod 4 = 0 \<and> (y mod 100 \<noteq> 0 \<or> y mod 400 = 0) then 29 else 28)
      else if m = 4 \<or> m = 6 \<or> m = 9 \<or> m = 11 then 30 else 31)"

definition parseIsoDate :: "string \<Rightarrow> (int \<times> nat \<times> nat) option" where
  "parseIsoDate s =
     (if length s = 10 \<and> s ! 4 = CHR ''-'' \<and> s ! 7 = CHR ''-''
         \<and> list_all (\<lambda>d. d \<in> set ''0123456789'') (take 4 s)
      then (case (twoDigits (take 2 (drop 5 s)), twoDigits (drop 8 s)) of
              (Some m, Some d) \<Rightarrow>
                if 1 \<le> m \<and> m \<le> 12 \<and> 1 \<le> d \<and> d \<le> daysInMonth (decimalValue (take 4 s)) m
                then Some (decimalValue (take 4 s), m, d) else None
            | _ \<Rightarrow> None)
      else None)"

text \<open>
  The month index (0 for January) and the year written in the date field, and the
  runtimes that read every date of a list that way.
\<close>

definition calendarMonthYear :: "string \<Rightarrow> (nat \<times> int) option" where
  "calendarMonthYear s = (case parseIsoDate s of None \<Rightarrow> None | Some (y, m, d) \<Rightarrow> Some (m - 1, y))"

definition readsDatesAsWritten :: "'l Runtime \<Rightarrow> Transaction list \<Rightarrow> bool" where
  "readsDatesAsWritten rt transactions \<longleftrightarrow>
     list_all (\<lambda>t. getMonth rt (date t) = map_option fst (calendarMonthYear (date t))
                \<and> getFullYear rt (date t) = map_option snd (calendarMonthYear (date t)))
       transactions"

definition localMonthYear :: "int \<Rightarrow> string \<Rightarrow> (nat \<times> int) option" where
  "localMonthYear tz s =
     (case parseIsoDate s of
        None \<Rightarrow> None
      | Some (y, m, d) \<Rightarrow>
          if tz < 0 \<and> d = 1 then (if m = 1 then Some (11, y - 1) else Some (m - 2, y))
          else Some (m - 1, y))"

text \<open>
  Two ways an engine parses a label such as the one for March 2024, which is no ISO
  date and whose month name is Arabic: \<open>strictParse\<close> rejects it (\<^verbatim>\<open>NaN\<close>);
  \<open>legacyParse\<close> skips the word it does not know and reads the year alone, so the time
  is that of the first of January of the year (in years, which is all the comparator's
  sign depends on).
\<close>

definition strictParse :: "(nat \<times> int) option \<Rightarrow> real option" where
  "strictParse l = None"

definition legacyParse :: "(nat \<times> int) option \<Rightarrow> real option" where
  "legacyParse l = (case l of None \<Rightarrow> None | Some (m, y) \<Rightarrow> Some (of_int y))"

definition browser ::
  "int \<Rightarrow> nat \<Rightarrow> int \<Rightarrow> ((nat \<times> int) option \<Rightarrow> real option) \<Rightarrow> (nat \<times> int) option Runtime" where
  "browser tz m y parse =
     \<lparr>nowMonth = m, nowFullYear = y,
      getMonth = (\<lambda>s. map_option fst (localMonthYear tz s)),
      getFullYear = (\<lambda>s. map_option snd (localMonthYear tz s)),
      toLocaleString = localMonthYear tz,
      getTime = parse\<rparr>"

text \<open>
  A transaction of the given type, category, amount and date; its id and description are
  empty and it has no tags (no function below reads them).
\<close>

definition mkTx :: "TransactionType \<Rightarrow> string \<Rightarrow> real \<Rightarrow> string \<Rightarrow> Transaction" where
  "mkTx ty cid amt d =
     \<lparr>Transaction.id = [], type = ty, categoryId = cid, amount = amt, date = d,
      description = [], tags = None\<rparr>"

section \<open>Totals\<close>

lemma totalsStep_fields:
  "income (totalsStep acc t) = income acc + (if type t = INCOME then amount t else 0)"
  "expense (totalsStep acc t) = expense acc + (if type t = INCOME then 0 else amount t)"
  "balance (totalsStep acc t) = income (totalsStep acc t) - expense (totalsStep acc t)"
  by (simp_all add: totalsStep_def Let_def)

lemma foldl_totals_income:
  "income (foldl totalsStep acc ts) =
     income acc + sum_list (map amount (filter (\<lambda>t. type t = INCOME) ts))"
  by (induction ts arbitrary: acc) (simp_all add: totalsStep_fields)

lemma foldl_totals_expense:
  "expense (foldl totalsStep acc ts) =
     expense acc + sum_list (map amount (filter (\<lambda>t. type t = EXPENSE) ts))"
proof (induction ts arbitrary: acc)
  case Nil
  show ?case by simp
next
  case (Cons t ts)
  show ?case
    by (cases "type t") (simp_all add: Cons.IH totalsStep_fields)
qed

lemma foldl_totals_balance:
  "balance acc = income acc - expense acc \<Longrightarrow>
   balance (foldl totalsStep acc ts) =
     income (foldl totalsStep acc ts) - expense (foldl totalsStep acc ts)"
  by (induction ts arbitrary: acc) (simp_all add: totalsStep_fields)

lemma calculateTotals_income:
  "income (calculateTotals ts) = sum_list (map amount (filter (\<lambda>t. type t = INCOME) ts))"
  by (simp add: calculateTotals_def foldl_totals_income)

lemma calculateTotals_expense:
  "expense (calculateTotals ts) = sum_list (map amount (filter (\<lambda>t. type t = EXPENSE) ts))"
  by (simp add: calculateTotals_def foldl_totals_expense)

lemma calculateTotals_balance:
  "balance (calculateTotals ts) = income (calculateTotals ts) - expense (calculateTotals ts)"
  by (simp add: calculateTotals_def foldl_totals_balance)

text \<open>
  C1. For every transaction list, \<^verbatim>\<open>calculateTotals\<close> returns \<^verbatim>\<open>income\<close> equal to
  the sum of the amounts of the INCOME transactions, \<^verbatim>\<open>expense\<close> equal to the sum of
  the amounts of the EXPENSE transactions and \<^verbatim>\<open>balance\<close> equal to
  \<^verbatim>\<open>income - expense\<close>; on the empty list all three fields are 0.
\<close>

theorem calculateTotals_correct:
  "income (calculateTotals transactions) =
     sum_list (map amount (filter (\<lambda>t. type t = INCOME) transactions))
   \<and> expense (calculateTotals transactions) =
     sum_list (map amount (filter (\<lambda>t. type t = EXPENSE) transactions))
   \<and> balance (calculateTotals transactions) =
     income (calculateTotals transactions) - expense (calculateTotals transactions)
   \<and> calculateTotals [] = \<lparr>income = 0, expense = 0, balance = 0\<rparr>"
proof -
  have "calculateTotals [] = \<lparr>income = 0, expense = 0, balance = 0\<rparr>"
    by (simp add: calculateTotals_def)
  then show ?thesis
    by (simp add: calculateTotals_income calculateTotals_expense calculateTotals_balance)
qed

section \<open>Sorting and objects\<close>

lemma mset_sortInsert: "mset (sortInsert cmp x ys) = add_mset x (mset ys)"
  by (induction ys) simp_all

lemma mset_jsSort: "mset (jsSort cmp xs) = mset xs"
  by (induction xs) (simp_all add: jsSort_def mset_sortInsert)

lemma set_jsSort: "set (jsSort cmp xs) = set xs"
  by (metis mset_jsSort set_mset_mset)





lemma jsPlus_simps:
  "jsPlus None b = None" "jsPlus (Some x) (Some y) = Some (x + y)"
  by (simp_all add: jsPlus_def)

lemma assignProperty_proto:
  "map_of acc ''__proto__'' = None \<Longrightarrow> map_of (assignProperty k v acc) ''__proto__'' = None"
  by (simp add: assignProperty_def update_conv')

lemma spendingStep_proto:
  "map_of acc ''__proto__'' = None \<Longrightarrow> map_of (spendingStep acc t) ''__proto__'' = None"
  by (simp add: spendingStep_def assignProperty_proto)

lemma propertyOr0_proto:
  "map_of acc ''__proto__'' = None \<Longrightarrow> propertyOr0 acc ''__proto__'' = None"
  by (simp add: propertyOr0_def inheritedProperty_def)

lemma spendingStep_read:
  assumes "map_of acc ''__proto__'' = None"
  shows "propertyOr0 (spendingStep acc t) c =
     (if Transaction.categoryId t = c then jsPlus (propertyOr0 acc c) (Some (amount t))
      else propertyOr0 acc c)"
proof (cases "Transaction.categoryId t = ''__proto__''")
  case True
  then have "spendingStep acc t = acc" by (simp add: spendingStep_def assignProperty_def)
  with True assms show ?thesis by (auto simp: propertyOr0_proto jsPlus_simps)
next
  case False
  then have "spendingStep acc t =
      AList.update (Transaction.categoryId t)
        (jsPlus (propertyOr0 acc (Transaction.categoryId t)) (Some (amount t))) acc"
    by (simp add: spendingStep_def assignProperty_def)
  then have "map_of (spendingStep acc t) =
      (map_of acc)(Transaction.categoryId t \<mapsto>
        jsPlus (propertyOr0 acc (Transaction.categoryId t)) (Some (amount t)))"
    by (simp only: update_conv')
  then show ?thesis
    by (cases "Transaction.categoryId t = c") (simp_all add: propertyOr0_def)
qed

lemma foldl_spendingStep_proto:
  "map_of acc ''__proto__'' = None \<Longrightarrow> map_of (foldl spendingStep acc ts) ''__proto__'' = None"
  by (induction ts arbitrary: acc) (simp_all add: spendingStep_proto)

lemma foldl_spendingStep_read:
  assumes "map_of acc ''__proto__'' = None"
  shows "propertyOr0 (foldl spendingStep acc ts) c =
     jsPlus (propertyOr0 acc c)
       (Some (sum_list (map amount (filter (\<lambda>t. Transaction.categoryId t = c) ts))))"
  using assms
proof (induction ts arbitrary: acc)
  case Nil
  show ?case by (cases "propertyOr0 acc c") (simp_all add: jsPlus_def)
next
  case (Cons t ts)
  from Cons.prems have p: "map_of (spendingStep acc t) ''__proto__'' = None"
    by (rule spendingStep_proto)
  show ?case
    unfolding foldl_Cons Cons.IH[OF p] spendingStep_read[OF Cons.prems]
    by (cases "propertyOr0 acc c") (simp_all add: jsPlus_def)
qed

lemma spending_read:
  "propertyOr0 (foldl spendingStep [] ts) c =
     (if inheritedProperty c then None
      else Some (sum_list (map amount (filter (\<lambda>t. Transaction.categoryId t = c) ts))))"
  using foldl_spendingStep_read[of "[]" ts c] by (simp add: propertyOr0_def jsPlus_def)

section \<open>Budget status\<close>

lemma budgetRow_Some:
  assumes "budgetRow E B c = Some r"
  shows "BudgetStatus.categoryId r = c"
    and "map_of B c = Some (budgetAmount r)"
    and "0 < budgetAmount r"
    and "spentAmount r = propertyOr0 E c"
    and "percentage r = map_option (\<lambda>s. s / budgetAmount r * 100) (spentAmount r)"
    and "remaining r = map_option (\<lambda>s. budgetAmount r - s) (spentAmount r)"
  using assms
  by (auto simp: budgetRow_def Let_def jsTimes_def jsDivide_def jsMinus_def
      split: option.splits if_splits)

lemma budgetRow_eq_None:
  "budgetRow E B c = None \<longleftrightarrow> (case map_of B c of None \<Rightarrow> True | Some l \<Rightarrow> l \<le> 0)"
  by (auto simp: budgetRow_def Let_def split: option.splits)

lemma set_map_filter: "set (List.map_filter f xs) = {y. \<exists>x\<in>set xs. f x = Some y}"
  by (induction xs) (auto split: option.splits)

lemma budgetStatus_row:
  assumes "r \<in> set (budgetStatus rt transactions budgets)"
  shows "map_of budgets (BudgetStatus.categoryId r) = Some (budgetAmount r)"
    and "0 < budgetAmount r"
    and "spentAmount r =
           (if inheritedProperty (BudgetStatus.categoryId r) then None
            else Some (sum_list (map amount (filter (\<lambda>tx. type tx = EXPENSE \<and> inCurrentMonth rt tx
              \<and> Transaction.categoryId tx = BudgetStatus.categoryId r) transactions))))"
    and "percentage r = map_option (\<lambda>s. s / budgetAmount r * 100) (spentAmount r)"
    and "remaining r = map_option (\<lambda>s. budgetAmount r - s) (spentAmount r)"
proof -
  let ?E = "foldl spendingStep [] (filter (\<lambda>tx. type tx = EXPENSE \<and> inCurrentMonth rt tx) transactions)"
  from assms obtain c where c: "budgetRow ?E budgets c = Some r"
    by (auto simp: budgetStatus_def Let_def set_jsSort set_map_filter)
  note R = budgetRow_Some[OF c]
  from R show "map_of budgets (BudgetStatus.categoryId r) = Some (budgetAmount r)" by simp
  from R show "0 < budgetAmount r" by simp
  from R show "percentage r = map_option (\<lambda>s. s / budgetAmount r * 100) (spentAmount r)" by simp
  from R show "remaining r = map_option (\<lambda>s. budgetAmount r - s) (spentAmount r)" by simp
  have f: "filter (\<lambda>t. Transaction.categoryId t = c)
          (filter (\<lambda>tx. type tx = EXPENSE \<and> inCurrentMonth rt tx) transactions) =
        filter (\<lambda>tx. type tx = EXPENSE \<and> inCurrentMonth rt tx
              \<and> Transaction.categoryId tx = c) transactions"
    by (simp add: conj_commute conj_left_commute cong: conj_cong)
  from R(4) R(1) show "spentAmount r =
           (if inheritedProperty (BudgetStatus.categoryId r) then None
            else Some (sum_list (map amount (filter (\<lambda>tx. type tx = EXPENSE \<and> inCurrentMonth rt tx
              \<and> Transaction.categoryId tx = BudgetStatus.categoryId r) transactions))))"
    by (simp only: spending_read f)
qed

section \<open>Evaluation of the concrete runtime\<close>

lemma browser_sel:
  "nowMonth (browser tz m y p) = m"
  "nowFullYear (browser tz m y p) = y"
  "getMonth (browser tz m y p) s = map_option fst (localMonthYear tz s)"
  "getFullYear (browser tz m y p) s = map_option snd (localMonthYear tz s)"
  "toLocaleString (browser tz m y p) s = localMonthYear tz s"
  "getTime (browser tz m y p) = p"
  by (simp_all add: browser_def)

lemma mkTx_sel:
  "type (mkTx ty c a d) = ty"
  "Transaction.categoryId (mkTx ty c a d) = c"
  "amount (mkTx ty c a d) = a"
  "date (mkTx ty c a d) = d"
  by (simp_all add: mkTx_def)

lemma parseIsoDate_examples:
  "parseIsoDate ''2024-03-02'' = Some (2024, 3, 2)"
  "parseIsoDate ''2024-03-20'' = Some (2024, 3, 20)"
  "parseIsoDate ''2024-02-20'' = Some (2024, 2, 20)"
  "parseIsoDate ''2024-01-15'' = Some (2024, 1, 15)"
  "parseIsoDate ''2024-03-01'' = Some (2024, 3, 1)"
  "parseIsoDate ''2024-02-29'' = Some (2024, 2, 29)"
  "parseIsoDate ''2024-04-01'' = Some (2024, 4, 1)"
  by (simp_all add: parseIsoDate_def twoDigits_def decimalValue_def daysInMonth_def)

lemma localMonthYear_examples:
  "localMonthYear 0 ''2024-03-02'' = Some (2, 2024)"
  "localMonthYear 0 ''2024-03-20'' = Some (2, 2024)"
  "localMonthYear 0 ''2024-02-20'' = Some (1, 2024)"
  "localMonthYear 0 ''2024-01-15'' = Some (0, 2024)"
  "localMonthYear 0 ''2024-03-01'' = Some (2, 2024)"
  "localMonthYear 0 ''2024-02-29'' = Some (1, 2024)"
  "localMonthYear 0 ''2024-04-01'' = Some (3, 2024)"
  "localMonthYear (- 300) ''2024-03-01'' = Some (1, 2024)"
  "localMonthYear (- 300) ''2024-02-29'' = Some (1, 2024)"
  "localMonthYear (- 300) ''2024-04-01'' = Some (2, 2024)"
  "localMonthYear (- 300) ''2024-03-20'' = Some (2, 2024)"
  by (simp_all add: localMonthYear_def parseIsoDate_examples)

lemma calendarMonthYear_examples:
  "calendarMonthYear ''2024-03-02'' = Some (2, 2024)"
  "calendarMonthYear ''2024-03-20'' = Some (2, 2024)"
  "calendarMonthYear ''2024-02-20'' = Some (1, 2024)"
  "calendarMonthYear ''2024-01-15'' = Some (0, 2024)"
  "calendarMonthYear ''2024-03-01'' = Some (2, 2024)"
  "calendarMonthYear ''2024-02-29'' = Some (1, 2024)"
  "calendarMonthYear ''2024-04-01'' = Some (3, 2024)"
  by (simp_all add: calendarMonthYear_def parseIsoDate_examples)

lemma localMonthYear_east:
  "0 \<le> tz \<Longrightarrow> localMonthYear tz s = calendarMonthYear s"
  by (simp add: localMonthYear_def calendarMonthYear_def split: option.splits)

lemma readsDatesAsWritten_browser:
  "0 \<le> tz \<Longrightarrow> readsDatesAsWritten (browser tz m y p) transactions"
  by (simp add: readsDatesAsWritten_def browser_sel localMonthYear_east list_all_iff)

lemma getCategoryById_examples:
  "getCategoryById ''food'' =
     Some \<lparr>Category.id = ''food'', name = [1591, 1593, 1575, 1605], color = ''#ef4444''\<rparr>"
  "getCategoryById ''housing'' =
     Some \<lparr>Category.id = ''housing'', name = [1587, 1603, 1606], color = ''#f87171''\<rparr>"
  "getCategoryById ''salary'' =
     Some \<lparr>Category.id = ''salary'', name = [1585, 1575, 1578, 1576], color = ''#22c55e''\<rparr>"
  "getCategoryById ''gift'' = None"
  "getCategoryById ''constructor'' = None"
  by (simp_all add: getCategoryById_def CATEGORIES_INCOME_def CATEGORIES_EXPENSE_def)

lemma arrayIndex_examples:
  "arrayIndex ''food'' = None" "arrayIndex ''housing'' = None" "arrayIndex ''bills'' = None"
  "arrayIndex ''constructor'' = None"
  by (simp_all add: arrayIndex_def)

lemma inheritedProperty_examples:
  "\<not> inheritedProperty ''food''" "\<not> inheritedProperty ''housing''"
  "\<not> inheritedProperty ''bills''" "inheritedProperty ''constructor''"
  by (simp_all add: inheritedProperty_def)

lemma inCurrentMonth_browser:
  "inCurrentMonth (browser tz m y p) t \<longleftrightarrow> localMonthYear tz (date t) = Some (m, y)"
  by (cases "localMonthYear tz (date t)") (auto simp: inCurrentMonth_def browser_sel)

section \<open>Budget evaluation (C5)\<close>

lemma budgetStatus_eval:
  "budgetStatus rt transactions budgets =
     jsSort percentageCompare
       (List.map_filter
          (budgetRow (foldl spendingStep []
             (filter (\<lambda>tx. type tx = EXPENSE \<and> inCurrentMonth rt tx) transactions)) budgets)
          (map fst (objectEntries budgets)))"
  by (simp add: budgetStatus_def)

text \<open>
  C5. The claim asks, for each budget, for the EXPENSE total of the category over the
  current calendar month, and for percentage 80 and remaining 200 and an alert when the
  limit is 1000 and that total is 800. The code takes the month of a transaction from
  \<^verbatim>\<open>new Date(tx.date)\<close>, which reads the date-only string as midnight UTC, with the getters
  of local time. West of UTC (here five hours) with the clock in March 2024, an expense
  of 800 for food dated 2024-03-01 is left out: the row has spent 0, percentage 0 and
  remaining 1000, and there is no alert; an expense dated 2024-04-01 is counted for
  March. At UTC the same expense of 2024-03-01 gives spent 800, percentage 80,
  remaining 200 and the alert.
\<close>

theorem budgetStatus_zone_shift:
  "calendarMonthYear ''2024-03-01'' = Some (2, 2024)
   \<and> budgetStatus (browser (- 300) 2 2024 strictParse)
       [mkTx EXPENSE ''food'' 800 ''2024-03-01''] [(''food'', 1000)]
     = [\<lparr>categoryId = ''food'', categoryName = [1591, 1593, 1575, 1605], budgetAmount = 1000,
         spentAmount = Some 0, percentage = Some 0, remaining = Some 1000, color = ''#ef4444''\<rparr>]
   \<and> budgetAlerts (budgetStatus (browser (- 300) 2 2024 strictParse)
       [mkTx EXPENSE ''food'' 800 ''2024-03-01''] [(''food'', 1000)]) = []
   \<and> calendarMonthYear ''2024-04-01'' = Some (3, 2024)
   \<and> budgetStatus (browser (- 300) 2 2024 strictParse)
       [mkTx EXPENSE ''food'' 800 ''2024-04-01''] [(''food'', 1000)]
     = [\<lparr>categoryId = ''food'', categoryName = [1591, 1593, 1575, 1605], budgetAmount = 1000,
         spentAmount = Some 800, percentage = Some 80, remaining = Some 200, color = ''#ef4444''\<rparr>]
   \<and> budgetStatus (browser 0 2 2024 strictParse)
       [mkTx EXPENSE ''food'' 800 ''2024-03-01''] [(''food'', 1000)]
     = [\<lparr>categoryId = ''food'', categoryName = [1591, 1593, 1575, 1605], budgetAmount = 1000,
         spentAmount = Some 800, percentage = Some 80, remaining = Some 200, color = ''#ef4444''\<rparr>]
   \<and> budgetAlerts (budgetStatus (browser 0 2 2024 strictParse)
       [mkTx EXPENSE ''food'' 800 ''2024-03-01''] [(''food'', 1000)])
     = [\<lparr>categoryId = ''food'', categoryName = [1591, 1593, 1575, 1605], budgetAmount = 1000,
         spentAmount = Some 800, percentage = Some 80, remaining = Some 200, color = ''#ef4444''\<rparr>]"
proof -
  note ev = budgetStatus_eval inCurrentMonth_browser mkTx_sel localMonthYear_examples
      spendingStep_def assignProperty_def propertyOr0_def inheritedProperty_examples
      objectEntries_def arrayIndex_examples budgetRow_def Let_def getCategoryById_examples
      jsSort_def jsPlus_def jsMinus_def jsTimes_def jsDivide_def
  have a: "budgetStatus (browser (- 300) 2 2024 strictParse)
       [mkTx EXPENSE ''food'' 800 ''2024-03-01''] [(''food'', 1000)]
     = [\<lparr>categoryId = ''food'', categoryName = [1591, 1593, 1575, 1605], budgetAmount = 1000,
         spentAmount = Some 0, percentage = Some 0, remaining = Some 1000, color = ''#ef4444''\<rparr>]"
    by (simp add: ev)
  have b: "budgetStatus (browser (- 300) 2 2024 strictParse)
       [mkTx EXPENSE ''food'' 800 ''2024-04-01''] [(''food'', 1000)]
     = [\<lparr>categoryId = ''food'', categoryName = [1591, 1593, 1575, 1605], budgetAmount = 1000,
         spentAmount = Some 800, percentage = Some 80, remaining = Some 200, color = ''#ef4444''\<rparr>]"
    by (simp add: ev)
  have c: "budgetStatus (browser 0 2 2024 strictParse)
       [mkTx EXPENSE ''food'' 800 ''2024-03-01''] [(''food'', 1000)]
     = [\<lparr>categoryId = ''food'', categoryName = [1591, 1593, 1575, 1605], budgetAmount = 1000,
         spentAmount = Some 800, percentage = Some 80, remaining = Some 200, color = ''#ef4444''\<rparr>]"
    by (simp add: ev)
  show ?thesis
    unfolding a b c by (simp add: calendarMonthYear_examples budgetAlerts_def jsSort_def)
qed

section \<open>Setting a budget (C10)\<close>

text \<open>
  C10 as stated fails: \<^verbatim>\<open>setBudget\<close> returns at once on a negative amount, so an
  entry that was there stays.
\<close>

theorem setBudget_negative_counterexample:
  "map_of (setBudget ''food'' (- 5) [(''food'', 100)]) ''food'' = Some 100"
  by (simp add: setBudget_def)

text \<open>
  C10, amended. \<^verbatim>\<open>setBudget\<close> with the amount 0 removes the category's entry; with a
  negative amount it leaves the budgets as they were. An entry whose value is 0 or
  negative gets no row in the budget computation.
\<close>

theorem setBudget_nonpositive:
  "(amt = 0 \<longrightarrow> map_of (setBudget cid amt budgets) cid = None
               \<and> cid \<notin> fst ` set (setBudget cid amt budgets))
   \<and> (amt < 0 \<longrightarrow> setBudget cid amt budgets = budgets)
   \<and> (\<forall>l. map_of budgets cid = Some l \<and> l \<le> 0 \<longrightarrow>
         cid \<notin> BudgetStatus.categoryId ` set (budgetStatus rt transactions budgets))"
proof (intro conjI impI allI)
  assume "amt = 0"
  then show "map_of (setBudget cid amt budgets) cid = None"
    by (simp add: setBudget_def delete_conv')
  from \<open>amt = 0\<close> show "cid \<notin> fst ` set (setBudget cid amt budgets)"
    by (simp add: setBudget_def delete_notin_dom)
next
  assume "amt < 0"
  then show "setBudget cid amt budgets = budgets"
    by (simp add: setBudget_def)
next
  fix l assume l: "map_of budgets cid = Some l \<and> l \<le> 0"
  show "cid \<notin> BudgetStatus.categoryId ` set (budgetStatus rt transactions budgets)"
  proof
    assume "cid \<in> BudgetStatus.categoryId ` set (budgetStatus rt transactions budgets)"
    then obtain r where r: "r \<in> set (budgetStatus rt transactions budgets)"
      and c: "BudgetStatus.categoryId r = cid" by auto
    from budgetStatus_row(1,2)[OF r] c l show False by simp
  qed
qed

theorem setBudget_nonpositive_witness:
  "setBudget ''food'' 0 [(''food'', 100), (''bills'', 40)] = [(''bills'', 40)]
   \<and> map_of (setBudget ''food'' 0 [(''food'', 100), (''bills'', 40)]) ''food'' = None
   \<and> setBudget ''food'' (- 5) [(''food'', 100), (''bills'', 40)] = [(''food'', 100), (''bills'', 40)]
   \<and> ''bills'' \<notin> BudgetStatus.categoryId `
        set (budgetStatus (browser 0 2 2024 strictParse) [] [(''food'', 100), (''bills'', 0)])"
proof -
  have a: "setBudget ''food'' 0 [(''food'', 100), (''bills'', 40)] = [(''bills'', 40)]"
    by (simp add: setBudget_def AList.delete_eq)
  note T = setBudget_nonpositive[of 0 "''food''" "[(''food'', 100), (''bills'', 40)]"]
  note U = setBudget_nonpositive[of "- 5" "''food''" "[(''food'', 100), (''bills'', 40)]"]
  note V = setBudget_nonpositive[of 1 "''bills''" "[(''food'', 100), (''bills'', 0)]"
      "browser 0 2 2024 strictParse" "[]"]
  from T have b: "map_of (setBudget ''food'' 0 [(''food'', 100), (''bills'', 40)]) ''food'' = None"
    by simp
  from U have c: "setBudget ''food'' (- 5) [(''food'', 100), (''bills'', 40)] = [(''food'', 100), (''bills'', 40)]"
    by simp
  from V have d: "''bills'' \<notin> BudgetStatus.categoryId `
        set (budgetStatus (browser 0 2 2024 strictParse) [] [(''food'', 100), (''bills'', 0)])"
    by simp
  from a b c d show ?thesis by simp
qed

section \<open>Budgets without transactions (C8)\<close>

text \<open>
  C8 as stated fails: with no transactions the budget for food still gets a row.
\<close>

theorem budgetStatus_empty_counterexample:
  "budgetStatus (browser 0 2 2024 strictParse) [] [(''food'', 1000)] \<noteq> []"
  by (simp add: budgetStatus_def objectEntries_def arrayIndex_examples budgetRow_def Let_def
      getCategoryById_examples jsSort_def)

text \<open>
  C8, amended. Over the empty transaction list, the budgets \<^verbatim>\<open>{food: 1000}\<close> yield
  exactly one row, for food, with spent 0, percentage 0 and remaining 1000.
\<close>

theorem budgetStatus_empty:
  "budgetStatus rt [] [(''food'', 1000)] =
     [\<lparr>categoryId = ''food'', categoryName = [1591, 1593, 1575, 1605], budgetAmount = 1000,
       spentAmount = Some 0, percentage = Some 0, remaining = Some 1000, color = ''#ef4444''\<rparr>]"
  by (simp add: budgetStatus_def objectEntries_def arrayIndex_examples budgetRow_def Let_def
      propertyOr0_def inheritedProperty_examples jsTimes_def jsDivide_def jsMinus_def
      getCategoryById_examples jsSort_def)

theorem budgetStatus_empty_witness:
  "map percentage (budgetStatus (browser 120 6 2025 legacyParse) [] [(''food'', 1000)]) = [Some 0]
   \<and> map remaining (budgetStatus (browser 120 6 2025 legacyParse) [] [(''food'', 1000)]) = [Some 1000]"
  using budgetStatus_empty[of "browser 120 6 2025 legacyParse"] by simp

section \<open>Savings percentage of the current month (C7)\<close>

lemma calculateTotals_filter_income:
  "income (calculateTotals (filter P ts)) =
     sum_list (map amount (filter (\<lambda>t. P t \<and> type t = INCOME) ts))"
  by (simp add: calculateTotals_income conj_commute)

lemma calculateTotals_filter_expense:
  "expense (calculateTotals (filter P ts)) =
     sum_list (map amount (filter (\<lambda>t. P t \<and> type t = EXPENSE) ts))"
  by (simp add: calculateTotals_expense conj_commute)

lemma monthlySavingsPercentageOf_cases:
  "monthlySavingsPercentageOf rt ts =
     (let inc = sum_list (map amount (filter (\<lambda>t. inCurrentMonth rt t \<and> type t = INCOME) ts));
          exp = sum_list (map amount (filter (\<lambda>t. inCurrentMonth rt t \<and> type t = EXPENSE) ts))
      in if inc \<le> 0 then Some 0 else Some (((inc - exp) / inc) * 100))"
  by (simp add: monthlySavingsPercentageOf_def Let_def calculateTotals_filter_income
      calculateTotals_filter_expense jsTimes_def jsDivide_def not_le[symmetric])

lemma inCurrentMonth_written:
  assumes "getMonth rt (date t) = map_option fst (calendarMonthYear (date t))"
    and "getFullYear rt (date t) = map_option snd (calendarMonthYear (date t))"
  shows "inCurrentMonth rt t \<longleftrightarrow>
         calendarMonthYear (date t) = Some (nowMonth rt, nowFullYear rt)"
  using assms by (cases "calendarMonthYear (date t)") (auto simp: inCurrentMonth_def)

lemma filter_inCurrentMonth_written:
  assumes "readsDatesAsWritten rt ts"
  shows "filter (\<lambda>t. inCurrentMonth rt t \<and> Q t) ts =
         filter (\<lambda>t. calendarMonthYear (date t) = Some (nowMonth rt, nowFullYear rt) \<and> Q t) ts"
proof (rule filter_cong[OF refl])
  fix t assume "t \<in> set ts"
  with assms have "getMonth rt (date t) = map_option fst (calendarMonthYear (date t))"
    and "getFullYear rt (date t) = map_option snd (calendarMonthYear (date t))"
    by (simp_all add: readsDatesAsWritten_def list_all_iff)
  then show "(inCurrentMonth rt t \<and> Q t) =
      (calendarMonthYear (date t) = Some (nowMonth rt, nowFullYear rt) \<and> Q t)"
    by (simp only: inCurrentMonth_written)
qed

text \<open>
  C7 as stated fails: the code tests \<^verbatim>\<open>income > 0\<close>, not \<^verbatim>\<open>income\<close> different from 0.
  With an income of -100 and an expense of 50 in the current month the income total is
  not zero and the formula of the claim gives 150, while the code returns 0.
\<close>

theorem negative_income_counterexample:
  "income (calculateTotals
      [mkTx INCOME ''salary'' (- 100) ''2024-03-02'', mkTx EXPENSE ''food'' 50 ''2024-03-20'']) = - 100
   \<and> expense (calculateTotals
      [mkTx INCOME ''salary'' (- 100) ''2024-03-02'', mkTx EXPENSE ''food'' 50 ''2024-03-20'']) = 50
   \<and> ((- 100 - 50) / (- 100)) * 100 = (150 :: real)
   \<and> monthlySavingsPercentage (getDashboardStats (browser 0 2 2024 strictParse)
      [mkTx INCOME ''salary'' (- 100) ''2024-03-02'', mkTx EXPENSE ''food'' 50 ''2024-03-20''])
     = Some 0"
  by (simp add: getDashboardStats_def monthlySavingsPercentageOf_cases calculateTotals_income
      calculateTotals_expense mkTx_sel inCurrentMonth_browser localMonthYear_examples)

text \<open>
  C7, amended. The runtime reads the month and the year of every transaction's date as
  they are written in the date field (as it does at or east of UTC). Then the savings
  percentage of the dashboard is 0 when the income total of the transactions dated in
  the clock's month and year is zero or negative, and otherwise it is
  \<^verbatim>\<open>((income - expense) / income) * 100\<close> for the income and expense totals of those
  transactions, whatever its sign. In both cases it is a finite number. (West of UTC the
  month filter takes the first day of a month for the month before: the defect shown
  for the budget evaluation above.)
\<close>

theorem monthlySavingsPercentage_correct:
  assumes "readsDatesAsWritten rt transactions"
  shows "monthlySavingsPercentage (getDashboardStats rt transactions) =
     (let inc = sum_list (map amount (filter
                  (\<lambda>t. calendarMonthYear (date t) = Some (nowMonth rt, nowFullYear rt)
                       \<and> type t = INCOME) transactions));
          exp = sum_list (map amount (filter
                  (\<lambda>t. calendarMonthYear (date t) = Some (nowMonth rt, nowFullYear rt)
                       \<and> type t = EXPENSE) transactions))
      in if inc \<le> 0 then Some 0 else Some (((inc - exp) / inc) * 100))"
proof -
  have "monthlySavingsPercentage (getDashboardStats rt transactions) =
      monthlySavingsPercentageOf rt transactions"
    by (simp add: getDashboardStats_def)
  then show ?thesis
    unfolding monthlySavingsPercentageOf_cases filter_inCurrentMonth_written[OF assms] .
qed

theorem monthlySavingsPercentage_correct_witness:
  "monthlySavingsPercentage (getDashboardStats (browser 0 2 2024 strictParse)
      [mkTx EXPENSE ''food'' 40 ''2024-03-02'', mkTx INCOME ''salary'' 900 ''2024-02-20'']) = Some 0
   \<and> monthlySavingsPercentage (getDashboardStats (browser 0 2 2024 strictParse)
      [mkTx INCOME ''salary'' 100 ''2024-03-02'', mkTx EXPENSE ''food'' 150 ''2024-03-20''])
     = Some (- 50)
   \<and> monthlySavingsPercentage (getDashboardStats (browser 0 2 2024 strictParse)
      [mkTx INCOME ''salary'' 200 ''2024-03-02'', mkTx EXPENSE ''food'' 50 ''2024-03-20''])
     = Some 75"
proof -
  have r: "readsDatesAsWritten (browser 0 2 2024 strictParse) ts" for ts
    by (rule readsDatesAsWritten_browser) simp
  have "monthlySavingsPercentage (getDashboardStats (browser 0 2 2024 strictParse)
      [mkTx EXPENSE ''food'' 40 ''2024-03-02'', mkTx INCOME ''salary'' 900 ''2024-02-20'']) = Some 0"
    using monthlySavingsPercentage_correct[OF r, of
        "[mkTx EXPENSE ''food'' 40 ''2024-03-02'', mkTx INCOME ''salary'' 900 ''2024-02-20'']"]
    by (simp add: mkTx_sel browser_sel calendarMonthYear_examples)
  moreover have "monthlySavingsPercentage (getDashboardStats (browser 0 2 2024 strictParse)
      [mkTx INCOME ''salary'' 100 ''2024-03-02'', mkTx EXPENSE ''food'' 150 ''2024-03-20''])
     = Some (- 50)"
    using monthlySavingsPercentage_correct[OF r, of
        "[mkTx INCOME ''salary'' 100 ''2024-03-02'', mkTx EXPENSE ''food'' 150 ''2024-03-20'']"]
    by (simp add: mkTx_sel browser_sel calendarMonthYear_examples)
  moreover have "monthlySavingsPercentage (getDashboardStats (browser 0 2 2024 strictParse)
      [mkTx INCOME ''salary'' 200 ''2024-03-02'', mkTx EXPENSE ''food'' 50 ''2024-03-20''])
     = Some 75"
    using monthlySavingsPercentage_correct[OF r, of
        "[mkTx INCOME ''salary'' 200 ''2024-03-02'', mkTx EXPENSE ''food'' 50 ''2024-03-20'']"]
    by (simp add: mkTx_sel browser_sel calendarMonthYear_examples)
  ultimately show ?thesis by simp
qed

section \<open>The clock (C4)\<close>

text \<open>
  C4 as stated fails: the clock is read inside the computations, and the same
  transactions and budgets give other results when the clock shows April instead of
  March.
\<close>

theorem ambient_clock_counterexample:
  "monthlySavingsPercentage (getDashboardStats (browser 0 2 2024 strictParse)
      [mkTx INCOME ''salary'' 100 ''2024-03-02'', mkTx EXPENSE ''food'' 50 ''2024-03-20''])
     = Some 50
   \<and> monthlySavingsPercentage (getDashboardStats (browser 0 3 2024 strictParse)
      [mkTx INCOME ''salary'' 100 ''2024-03-02'', mkTx EXPENSE ''food'' 50 ''2024-03-20''])
     = Some 0
   \<and> map spentAmount (budgetStatus (browser 0 2 2024 strictParse)
      [mkTx INCOME ''salary'' 100 ''2024-03-02'', mkTx EXPENSE ''food'' 50 ''2024-03-20'']
      [(''food'', 100)]) = [Some 50]
   \<and> map spentAmount (budgetStatus (browser 0 3 2024 strictParse)
      [mkTx INCOME ''salary'' 100 ''2024-03-02'', mkTx EXPENSE ''food'' 50 ''2024-03-20'']
      [(''food'', 100)]) = [Some 0]"
  by (simp add: getDashboardStats_def monthlySavingsPercentageOf_cases budgetStatus_eval
      mkTx_sel inCurrentMonth_browser localMonthYear_examples
      spendingStep_def assignProperty_def propertyOr0_def inheritedProperty_examples
      objectEntries_def arrayIndex_examples budgetRow_def Let_def getCategoryById_examples
      jsSort_def jsPlus_def jsMinus_def jsTimes_def jsDivide_def)

text \<open>
  C4, amended. The dashboard statistics and the budget computation take no time
  argument; they read the ambient clock. What they use of it is the month and the year:
  on the same transactions and budgets, two runtimes that agree on the clock's month and
  year and on how they read the month and year of a date give the same statistics and
  the same budget rows.
\<close>

theorem ambient_clock_month_year:
  assumes "nowMonth rt = nowMonth rt'" and "nowFullYear rt = nowFullYear rt'"
    and "getMonth rt = getMonth rt'" and "getFullYear rt = getFullYear rt'"
  shows "getDashboardStats rt transactions = getDashboardStats rt' transactions
       \<and> budgetStatus rt transactions budgets = budgetStatus rt' transactions budgets"
proof -
  from assms have "inCurrentMonth rt = inCurrentMonth rt'"
    by (simp add: inCurrentMonth_def fun_eq_iff)
  then show ?thesis
    by (simp add: getDashboardStats_def monthlySavingsPercentageOf_def budgetStatus_def)
qed

theorem ambient_clock_month_year_witness:
  "getDashboardStats (browser 0 2 2024 strictParse)
      [mkTx INCOME ''salary'' 100 ''2024-03-02'', mkTx EXPENSE ''food'' 50 ''2024-03-20'']
   = getDashboardStats (browser 0 2 2024 legacyParse)
      [mkTx INCOME ''salary'' 100 ''2024-03-02'', mkTx EXPENSE ''food'' 50 ''2024-03-20'']
   \<and> budgetStatus (browser 0 2 2024 strictParse)
      [mkTx INCOME ''salary'' 100 ''2024-03-02'', mkTx EXPENSE ''food'' 50 ''2024-03-20'']
      [(''food'', 100)]
   = budgetStatus (browser 0 2 2024 legacyParse)
      [mkTx INCOME ''salary'' 100 ''2024-03-02'', mkTx EXPENSE ''food'' 50 ''2024-03-20'']
      [(''food'', 100)]"
  by (rule ambient_clock_month_year) (simp_all add: browser_def)

section \<open>Order of the monthly series (C2)\<close>

text \<open>
  C2. The claim asks for the monthly series in descending calendar order: for
  transactions dated March, January and February 2024, the order March, February,
  January. The code sorts the rows by the time that \<^verbatim>\<open>new Date\<close> parses out of each
  row's label, which is no ISO date and whose month name is Arabic; how such a string
  parses is left to the engine. Parsed strictly the label is an invalid date, every
  comparison is \<^verbatim>\<open>NaN\<close> and the rows stay as they were inserted; parsed leniently
  (the unknown word skipped) it gives the year alone, and the rows of one year stay in
  insertion order. Either way the series comes out as March, January, February.
\<close>

theorem groupTransactionsByMonth_insertion_order:
  "map MonthRow.name (groupTransactionsByMonth (browser 0 2 2024 strictParse)
      [mkTx EXPENSE ''food'' 30 ''2024-03-20'', mkTx EXPENSE ''food'' 10 ''2024-01-15'',
       mkTx EXPENSE ''food'' 20 ''2024-02-20''])
     = [Some (2, 2024), Some (0, 2024), Some (1, 2024)]
   \<and> map MonthRow.name (groupTransactionsByMonth (browser 0 2 2024 legacyParse)
      [mkTx EXPENSE ''food'' 30 ''2024-03-20'', mkTx EXPENSE ''food'' 10 ''2024-01-15'',
       mkTx EXPENSE ''food'' 20 ''2024-02-20''])
     = [Some (2, 2024), Some (0, 2024), Some (1, 2024)]"
  by (simp add: groupTransactionsByMonth_def monthStep_def Let_def monthCompare_def browser_sel
      mkTx_sel localMonthYear_examples jsSort_def jsMinus_def sortCompare_def
      strictParse_def legacyParse_def)

section \<open>Expenses by category (C6)\<close>

lemma sum_list_update:
  fixes f :: "'v \<Rightarrow> real"
  shows "sum_list (map (\<lambda>p. f (snd p)) (AList.update k v al)) =
         sum_list (map (\<lambda>p. f (snd p)) al)
           - (case map_of al k of None \<Rightarrow> 0 | Some w \<Rightarrow> f w) + f v"
  by (induction al) auto

lemma groupStep_unresolved:
  "getCategoryById (Transaction.categoryId t) = None \<Longrightarrow> groupStep acc t = acc"
  by (simp add: groupStep_def)

lemma groupStep_total:
  "sum_list (map (\<lambda>p. total (snd p)) (groupStep acc t)) =
     sum_list (map (\<lambda>p. total (snd p)) acc)
       + (if getCategoryById (Transaction.categoryId t) = None then 0 else amount t)"
proof (cases "getCategoryById (Transaction.categoryId t)")
  case None
  then show ?thesis by (simp add: groupStep_def)
next
  case (Some c)
  then show ?thesis
    by (cases "map_of acc (Category.name c)") (simp_all add: groupStep_def Let_def sum_list_update)
qed

lemma foldl_groupStep_total:
  "sum_list (map (\<lambda>p. total (snd p)) (foldl groupStep acc ts)) =
     sum_list (map (\<lambda>p. total (snd p)) acc)
       + sum_list (map amount
           (filter (\<lambda>t. getCategoryById (Transaction.categoryId t) \<noteq> None) ts))"
proof (induction ts arbitrary: acc)
  case Nil
  show ?case by simp
next
  case (Cons t ts)
  show ?case by (simp add: Cons.IH groupStep_total)
qed

lemma foldl_groupStep_resolved:
  "foldl groupStep acc (filter (\<lambda>t. getCategoryById (Transaction.categoryId t) \<noteq> None) ts) =
   foldl groupStep acc ts"
  by (induction ts arbitrary: acc) (simp_all add: groupStep_unresolved)

lemma groupExpensesByCategory_resolved:
  "groupExpensesByCategory (filter (\<lambda>t. getCategoryById (Transaction.categoryId t) \<noteq> None) ts) =
   groupExpensesByCategory ts"
proof -
  have "filter (\<lambda>t. type t = EXPENSE)
          (filter (\<lambda>t. getCategoryById (Transaction.categoryId t) \<noteq> None) ts) =
        filter (\<lambda>t. getCategoryById (Transaction.categoryId t) \<noteq> None)
          (filter (\<lambda>t. type t = EXPENSE) ts)"
    by (simp add: conj_commute)
  then show ?thesis
    by (simp only: groupExpensesByCategory_def Let_def foldl_groupStep_resolved)
qed

lemma groupExpensesByCategory_sum:
  "sum_list (map value (groupExpensesByCategory ts)) =
     sum_list (map amount
       (filter (\<lambda>t. type t = EXPENSE \<and> getCategoryById (Transaction.categoryId t) \<noteq> None) ts))"
proof -
  have "sum_list (map value (groupExpensesByCategory ts)) =
        sum_list (map (\<lambda>p. total (snd p)) (foldl groupStep [] (filter (\<lambda>t. type t = EXPENSE) ts)))"
    by (simp add: groupExpensesByCategory_def Let_def comp_def case_prod_unfold)
  also have "\<dots> = sum_list (map amount
       (filter (\<lambda>t. getCategoryById (Transaction.categoryId t) \<noteq> None)
          (filter (\<lambda>t. type t = EXPENSE) ts)))"
    by (simp add: foldl_groupStep_total)
  also have "\<dots> = sum_list (map amount
       (filter (\<lambda>t. type t = EXPENSE \<and> getCategoryById (Transaction.categoryId t) \<noteq> None) ts))"
    by (simp add: conj_commute)
  finally show ?thesis .
qed

lemma sum_list_filter_split:
  fixes f :: "'a \<Rightarrow> real"
  shows "sum_list (map f (filter P xs)) =
         sum_list (map f (filter (\<lambda>x. P x \<and> Q x) xs))
           + sum_list (map f (filter (\<lambda>x. P x \<and> \<not> Q x) xs))"
  by (induction xs) simp_all

text \<open>The name under which a transaction is grouped, if its category is found.\<close>

lemma groupStep_lookup:
  "(case map_of (groupStep acc t) n of None \<Rightarrow> 0 | Some e \<Rightarrow> total e) =
     (case map_of acc n of None \<Rightarrow> 0 | Some e \<Rightarrow> total e)
       + (if map_option Category.name (getCategoryById (Transaction.categoryId t)) = Some n
          then amount t else 0)"
proof (cases "getCategoryById (Transaction.categoryId t)")
  case None
  then show ?thesis by (simp add: groupStep_def)
next
  case (Some c)
  then show ?thesis
    by (cases "map_of acc (Category.name c)") (auto simp: groupStep_def Let_def update_conv')
qed

lemma foldl_groupStep_lookup:
  "(case map_of (foldl groupStep acc ts) n of None \<Rightarrow> 0 | Some e \<Rightarrow> total e) =
     (case map_of acc n of None \<Rightarrow> 0 | Some e \<Rightarrow> total e)
       + sum_list (map amount (filter
           (\<lambda>t. map_option Category.name (getCategoryById (Transaction.categoryId t)) = Some n) ts))"
proof (induction ts arbitrary: acc)
  case Nil
  show ?case by simp
next
  case (Cons t ts)
  show ?case by (simp add: Cons.IH groupStep_lookup del: map_option_eq_Some)
qed

lemma distinct_groupStep:
  "distinct (map fst acc) \<Longrightarrow> distinct (map fst (groupStep acc t))"
  by (auto simp: groupStep_def Let_def distinct_update split: option.splits)

lemma distinct_foldl_groupStep:
  "distinct (map fst acc) \<Longrightarrow> distinct (map fst (foldl groupStep acc ts))"
  by (induction ts arbitrary: acc) (simp_all add: distinct_groupStep)

lemma groupExpensesByCategory_row:
  assumes "r \<in> set (groupExpensesByCategory ts)"
  shows "value r = sum_list (map amount (filter (\<lambda>t. type t = EXPENSE \<and>
           map_option Category.name (getCategoryById (Transaction.categoryId t))
             = Some (CategorySlice.name r)) ts))"
proof -
  let ?g = "foldl groupStep [] (filter (\<lambda>t. type t = EXPENSE) ts)"
  from assms obtain n e where ne: "(n, e) \<in> set ?g"
    and r: "r = \<lparr>CategorySlice.name = n, value = total e, color = GroupedEntry.color e\<rparr>"
    by (auto simp: groupExpensesByCategory_def Let_def)
  have "distinct (map fst ?g)" by (rule distinct_foldl_groupStep) simp
  with ne have "map_of ?g n = Some e" by simp
  with foldl_groupStep_lookup[of "[]" "filter (\<lambda>t. type t = EXPENSE) ts" n]
  have "total e = sum_list (map amount (filter
           (\<lambda>t. map_option Category.name (getCategoryById (Transaction.categoryId t)) = Some n)
           (filter (\<lambda>t. type t = EXPENSE) ts)))"
    by simp
  also have "\<dots> = sum_list (map amount (filter (\<lambda>t. type t = EXPENSE \<and>
           map_option Category.name (getCategoryById (Transaction.categoryId t)) = Some n) ts))"
    by (simp add: conj_commute)
  finally show ?thesis using r by simp
qed

text \<open>
  C6. The values that \<^verbatim>\<open>groupExpensesByCategory\<close> returns add up to the expense total
  of \<^verbatim>\<open>calculateTotals\<close> minus the amounts of the EXPENSE transactions whose category
  id is not in the catalog. Such a transaction is in no bucket: the grouping is the one
  of the list without the unresolvable transactions, and the value of each row is the
  sum of the EXPENSE amounts whose category resolves to the row's name. The expense
  total counts every EXPENSE transaction.
\<close>

theorem groupExpensesByCategory_total:
  "sum_list (map value (groupExpensesByCategory transactions)) =
     expense (calculateTotals transactions)
       - sum_list (map amount (filter (\<lambda>t. type t = EXPENSE
           \<and> getCategoryById (Transaction.categoryId t) = None) transactions))
   \<and> groupExpensesByCategory transactions =
       groupExpensesByCategory
         (filter (\<lambda>t. getCategoryById (Transaction.categoryId t) \<noteq> None) transactions)
   \<and> (\<forall>r \<in> set (groupExpensesByCategory transactions).
        value r = sum_list (map amount (filter (\<lambda>t. type t = EXPENSE \<and>
           map_option Category.name (getCategoryById (Transaction.categoryId t))
             = Some (CategorySlice.name r)) transactions)))
   \<and> expense (calculateTotals transactions) =
       sum_list (map amount (filter (\<lambda>t. type t = EXPENSE) transactions))"
proof (intro conjI ballI)
  have "expense (calculateTotals transactions) =
      sum_list (map amount (filter (\<lambda>t. type t = EXPENSE
           \<and> getCategoryById (Transaction.categoryId t) \<noteq> None) transactions))
      + sum_list (map amount (filter (\<lambda>t. type t = EXPENSE
           \<and> \<not> getCategoryById (Transaction.categoryId t) \<noteq> None) transactions))"
    unfolding calculateTotals_expense by (rule sum_list_filter_split)
  then show "sum_list (map value (groupExpensesByCategory transactions)) =
     expense (calculateTotals transactions)
       - sum_list (map amount (filter (\<lambda>t. type t = EXPENSE
           \<and> getCategoryById (Transaction.categoryId t) = None) transactions))"
    by (simp add: groupExpensesByCategory_sum)
next
  show "groupExpensesByCategory transactions =
       groupExpensesByCategory
         (filter (\<lambda>t. getCategoryById (Transaction.categoryId t) \<noteq> None) transactions)"
    by (simp only: groupExpensesByCategory_resolved)
next
  fix r assume "r \<in> set (groupExpensesByCategory transactions)"
  then show "value r = sum_list (map amount (filter (\<lambda>t. type t = EXPENSE \<and>
           map_option Category.name (getCategoryById (Transaction.categoryId t))
             = Some (CategorySlice.name r)) transactions))"
    by (rule groupExpensesByCategory_row)
next
  show "expense (calculateTotals transactions) =
       sum_list (map amount (filter (\<lambda>t. type t = EXPENSE) transactions))"
    by (rule calculateTotals_expense)
qed

lemma groupExpensesByCategory_example:
  "groupExpensesByCategory
     [mkTx EXPENSE ''food'' 10 ''2024-03-02'', mkTx EXPENSE ''gift'' 7 ''2024-03-02'',
      mkTx EXPENSE ''food'' 5 ''2024-03-20'', mkTx INCOME ''salary'' 100 ''2024-03-02'',
      mkTx EXPENSE ''housing'' 20 ''2024-02-20''] =
   [\<lparr>CategorySlice.name = [1591, 1593, 1575, 1605], value = 15, color = ''#ef4444''\<rparr>,
    \<lparr>CategorySlice.name = [1587, 1603, 1606], value = 20, color = ''#f87171''\<rparr>]"
  by (simp add: groupExpensesByCategory_def groupStep_def mkTx_sel getCategoryById_examples)

theorem groupExpensesByCategory_total_witness:
  "sum_list (map value (groupExpensesByCategory
     [mkTx EXPENSE ''food'' 10 ''2024-03-02'', mkTx EXPENSE ''gift'' 7 ''2024-03-02'',
      mkTx EXPENSE ''food'' 5 ''2024-03-20'', mkTx INCOME ''salary'' 100 ''2024-03-02'',
      mkTx EXPENSE ''housing'' 20 ''2024-02-20''])) = 35
   \<and> expense (calculateTotals
     [mkTx EXPENSE ''food'' 10 ''2024-03-02'', mkTx EXPENSE ''gift'' 7 ''2024-03-02'',
      mkTx EXPENSE ''food'' 5 ''2024-03-20'', mkTx INCOME ''salary'' 100 ''2024-03-02'',
      mkTx EXPENSE ''housing'' 20 ''2024-02-20'']) = 42"
proof -
  let ?ts = "[mkTx EXPENSE ''food'' 10 ''2024-03-02'', mkTx EXPENSE ''gift'' 7 ''2024-03-02'',
      mkTx EXPENSE ''food'' 5 ''2024-03-20'', mkTx INCOME ''salary'' 100 ''2024-03-02'',
      mkTx EXPENSE ''housing'' 20 ''2024-02-20'']"
  note T = groupExpensesByCategory_total[of ?ts]
  from T have e: "expense (calculateTotals ?ts) =
       sum_list (map amount (filter (\<lambda>t. type t = EXPENSE) ?ts))" by blast
  from T have s: "sum_list (map value (groupExpensesByCategory ?ts)) =
     expense (calculateTotals ?ts)
       - sum_list (map amount (filter (\<lambda>t. type t = EXPENSE
           \<and> getCategoryById (Transaction.categoryId t) = None) ?ts))" by blast
  from e have e': "expense (calculateTotals ?ts) = 42" by (simp add: mkTx_sel)
  from s e' have "sum_list (map value (groupExpensesByCategory ?ts)) = 35"
    by (simp add: mkTx_sel getCategoryById_examples)
  with e' show ?thesis by simp
qed

section \<open>Buckets of the monthly series (C3)\<close>





lemma monthStep_keys:
  "fst ` set (monthStep rt acc t) = insert (toLocaleString rt (date t)) (fst ` set acc)"
  by (simp add: monthStep_def Let_def dom_update)

lemma foldl_monthStep_keys:
  "fst ` set (foldl (monthStep rt) acc ts) =
     fst ` set acc \<union> (\<lambda>t. toLocaleString rt (date t)) ` set ts"
  by (induction ts arbitrary: acc) (auto simp: monthStep_keys)



text \<open>Every row is stored under its own name.\<close>

lemma in_set_updateD:
  "p \<in> set (AList.update k v al) \<Longrightarrow> p = (k, v) \<or> p \<in> set al"
  by (induction al) (auto split: if_splits)

lemma monthStep_names:
  assumes "\<forall>p \<in> set acc. MonthRow.name (snd p) = fst p"
  shows "\<forall>p \<in> set (monthStep rt acc t). MonthRow.name (snd p) = fst p"
proof
  fix p assume p: "p \<in> set (monthStep rt acc t)"
  define l where "l = toLocaleString rt (date t)"
  define row where "row = (case map_of acc l of
                None \<Rightarrow> \<lparr>MonthRow.name = l, dakhl = 0, masruf = 0\<rparr> | Some r \<Rightarrow> r)"
  define v where "v = (if type t = INCOME then row\<lparr>dakhl := dakhl row + amount t\<rparr>
            else row\<lparr>masruf := masruf row + amount t\<rparr>)"
  have step: "monthStep rt acc t = AList.update l v acc"
    unfolding monthStep_def Let_def v_def row_def l_def by (rule refl)
  have row: "MonthRow.name row = l"
  proof (cases "map_of acc l")
    case None
    then show ?thesis by (simp add: row_def)
  next
    case (Some r)
    then have "(l, r) \<in> set acc" by (rule map_of_SomeD)
    with assms have "MonthRow.name r = l" by fastforce
    with Some show ?thesis by (simp add: row_def)
  qed
  then have v: "MonthRow.name v = l" by (simp add: v_def)
  from p step have "p = (l, v) \<or> p \<in> set acc" by (simp add: in_set_updateD)
  then show "MonthRow.name (snd p) = fst p"
  proof
    assume "p = (l, v)"
    with v show ?thesis by simp
  next
    assume "p \<in> set acc"
    with assms show ?thesis by simp
  qed
qed

lemma foldl_monthStep_names:
  "\<forall>p \<in> set acc. MonthRow.name (snd p) = fst p \<Longrightarrow>
   \<forall>p \<in> set (foldl (monthStep rt) acc ts). MonthRow.name (snd p) = fst p"
proof (induction ts arbitrary: acc)
  case Nil
  then show ?case by simp
next
  case (Cons t ts)
  from monthStep_names[OF Cons.prems, of rt t] show ?case
    by (simp add: Cons.IH)
qed

lemma month_rows_names:
  "map MonthRow.name (map snd (foldl (monthStep rt) [] ts)) = map fst (foldl (monthStep rt) [] ts)"
  using foldl_monthStep_names[of "[]" rt ts] by simp

lemma groupTransactionsByMonth_mset:
  "mset (groupTransactionsByMonth rt ts) = mset (map snd (foldl (monthStep rt) [] ts))"
  by (simp add: groupTransactionsByMonth_def Let_def mset_jsSort)

lemma groupTransactionsByMonth_names_mset:
  "mset (map MonthRow.name (groupTransactionsByMonth rt ts)) =
   mset (map fst (foldl (monthStep rt) [] ts))"
proof -
  have "mset (map MonthRow.name (groupTransactionsByMonth rt ts)) =
        image_mset MonthRow.name (mset (groupTransactionsByMonth rt ts))"
    by simp
  also have "\<dots> = image_mset MonthRow.name (mset (map snd (foldl (monthStep rt) [] ts)))"
    by (simp only: groupTransactionsByMonth_mset)
  also have "\<dots> = mset (map MonthRow.name (map snd (foldl (monthStep rt) [] ts)))"
    by (simp only: mset_map)
  finally show ?thesis by (simp only: month_rows_names)
qed


lemma groupTransactionsByMonth_names:
  "MonthRow.name ` set (groupTransactionsByMonth rt ts) =
   (\<lambda>t. toLocaleString rt (date t)) ` set ts"
proof -
  have "set (map MonthRow.name (groupTransactionsByMonth rt ts)) =
        set (map fst (foldl (monthStep rt) [] ts))"
    using groupTransactionsByMonth_names_mset[of rt ts] by (metis set_mset_mset)
  then show ?thesis by (simp add: foldl_monthStep_keys)
qed


text \<open>
  C3. The claim asks that two transactions share a bucket exactly when their dates fall
  in the same calendar month and year. The code takes the key from
  \<^verbatim>\<open>new Date(date)\<close>, which reads the date-only string as midnight UTC, and formats it in
  the local time zone. West of UTC (here five hours) the first of March is still the
  last day of February in local time: a transaction dated 2024-03-01 and one dated
  2024-02-29 fall into one bucket, labelled February 2024, though their dates lie in
  different calendar months. At UTC the same two transactions make two buckets.
\<close>

theorem groupTransactionsByMonth_zone_shift:
  "calendarMonthYear ''2024-03-01'' = Some (2, 2024)
   \<and> calendarMonthYear ''2024-02-29'' = Some (1, 2024)
   \<and> groupTransactionsByMonth (browser (- 300) 2 2024 strictParse)
       [mkTx EXPENSE ''food'' 10 ''2024-03-01'', mkTx EXPENSE ''food'' 5 ''2024-02-29'']
     = [\<lparr>MonthRow.name = Some (1, 2024), dakhl = 0, masruf = 15\<rparr>]
   \<and> groupTransactionsByMonth (browser 0 2 2024 strictParse)
       [mkTx EXPENSE ''food'' 10 ''2024-03-01'', mkTx EXPENSE ''food'' 5 ''2024-02-29'']
     = [\<lparr>MonthRow.name = Some (2, 2024), dakhl = 0, masruf = 10\<rparr>,
        \<lparr>MonthRow.name = Some (1, 2024), dakhl = 0, masruf = 5\<rparr>]"
proof -
  have "groupTransactionsByMonth (browser (- 300) 2 2024 strictParse)
       [mkTx EXPENSE ''food'' 10 ''2024-03-01'', mkTx EXPENSE ''food'' 5 ''2024-02-29'']
     = [\<lparr>MonthRow.name = Some (1, 2024), dakhl = 0, masruf = 15\<rparr>]"
    by (simp add: groupTransactionsByMonth_def monthStep_def Let_def monthCompare_def
        browser_sel mkTx_sel localMonthYear_examples jsSort_def)
  moreover have "groupTransactionsByMonth (browser 0 2 2024 strictParse)
       [mkTx EXPENSE ''food'' 10 ''2024-03-01'', mkTx EXPENSE ''food'' 5 ''2024-02-29'']
     = [\<lparr>MonthRow.name = Some (2, 2024), dakhl = 0, masruf = 10\<rparr>,
        \<lparr>MonthRow.name = Some (1, 2024), dakhl = 0, masruf = 5\<rparr>]"
    by (simp add: groupTransactionsByMonth_def monthStep_def Let_def monthCompare_def
        browser_sel mkTx_sel localMonthYear_examples jsSort_def jsMinus_def sortCompare_def
        strictParse_def)
  ultimately show ?thesis by (simp add: calendarMonthYear_examples)
qed

text \<open>
  Where the runtime reads the dates as written, as the concrete runtime does at or east
  of UTC, the buckets are the calendar months of the dates.
\<close>

lemma groupTransactionsByMonth_east:
  assumes "0 \<le> tz"
  shows "MonthRow.name ` set (groupTransactionsByMonth (browser tz m y p) transactions) =
         (\<lambda>t. calendarMonthYear (date t)) ` set transactions"
  unfolding groupTransactionsByMonth_names
  by (simp add: browser_sel localMonthYear_east[OF assms])

section \<open>Order of the transactions (C9)\<close>



subsection \<open>Dashboard statistics\<close>




subsection \<open>Budget rows\<close>



subsection \<open>Monthly series\<close>



subsection \<open>Expenses by category\<close>














subsection \<open>Largest spending category\<close>











subsection \<open>The claim and its amendment\<close>




end
